theory Spec2Isabelle
  imports Complex_Main
begin

section \<open>Roadmap ingestion of \<open>IpoptMPC\<close> (\<open>src/mpc_to_line/src/Ipopt_MPC.h\<close>)\<close>

text \<open>
  The header defines two member functions inline, \<open>readRoadmapFromCSV\<close> and
  \<open>parseRoadMapLine\<close>; every other member function is only declared.  The two defined
  functions use three library operations: \<open>std::istringstream\<close>, \<open>std::getline\<close> and
  \<open>std::stof\<close>.  They are modelled first, from the C++ and C standards, then the two
  member functions are translated line by line.
\<close>

subsection \<open>Values of type \<open>float\<close> and \<open>double\<close>\<close>

text \<open>
  A floating-point datum is a finite number (its exact rational value), an infinity
  (\<open>True\<close> for the negative one) or a NaN.  The two zeros are not told apart and
  neither are the NaN payloads.  The conversion \<open>float\<close> to \<open>double\<close> done by
  \<open>wp.push_back(std::stof(number))\<close> is exact, so a \<open>double\<close> obtained from a
  \<open>float\<close> is the same datum.
\<close>

datatype number = Finite rat | Infinity bool | NaN

type_synonym float = number
type_synonym double = number

definition pow2 :: "int \<Rightarrow> rat" where
  "pow2 e = (if 0 \<le> e then 2 ^ nat e else 1 / 2 ^ nat (- e))"

definition pow10 :: "int \<Rightarrow> rat" where
  "pow10 e = (if 0 \<le> e then 10 ^ nat e else 1 / 10 ^ nat (- e))"

text \<open>
  \<open>ilog2 n\<close> is the integer \<open>e\<close> with \<open>2^e \<le> n < 2^(e+1)\<close>, for an integer
  \<open>n \<ge> 1\<close>, and \<open>floor_log2 q\<close> the integer \<open>e\<close> with \<open>2^e \<le> q < 2^(e+1)\<close>, for
  a rational \<open>q > 0\<close>.
\<close>

function ilog2 :: "int \<Rightarrow> int" where
  "ilog2 n = (if n \<le> 1 then 0 else 1 + ilog2 (n div 2))"
  by pat_completeness auto
termination
  by (relation "measure nat") auto

definition floor_log2 :: "rat \<Rightarrow> int" where
  "floor_log2 q =
     (if 1 \<le> q then ilog2 \<lfloor>q\<rfloor>
      else - (ilog2 (\<lceil>1 / q\<rceil> - 1) + 1))"

definition round_half_even :: "rat \<Rightarrow> int" where
  "round_half_even x =
     (let f = \<lfloor>x\<rfloor>; d = x - of_int f
      in if d < 1 / 2 then f
         else if 1 / 2 < d then f + 1
         else if even f then f else f + 1)"

text \<open>
  IEEE 754 binary32: 24 significant bits, normal exponents from \<open>-126\<close> to \<open>127\<close>,
  subnormals on the grid \<open>2^-149\<close>.  \<open>f32_quantum_exp q\<close> is the exponent of the spacing
  of the binary32 values around \<open>q\<close>; \<open>round_f32\<close> rounds to the nearest value of the
  grid, ties to even, without looking at the upper end of the range.
\<close>

definition f32_quantum_exp :: "rat \<Rightarrow> int" where
  "f32_quantum_exp q = max (floor_log2 \<bar>q\<bar>) (- 126) - 23"

definition round_f32 :: "rat \<Rightarrow> rat" where
  "round_f32 q =
     (if q = 0 then 0
      else of_int (round_half_even (q / pow2 (f32_quantum_exp q))) * pow2 (f32_quantum_exp q))"



subsection \<open>\<open>strtof\<close> (C11 7.22.1.3) in the "C" locale\<close>

definition isspace :: "char \<Rightarrow> bool" where
  "isspace c \<longleftrightarrow> c = CHR '' '' \<or> (9 \<le> (of_char c :: int) \<and> (of_char c :: int) \<le> 13)"

definition isdigit :: "char \<Rightarrow> bool" where
  "isdigit c \<longleftrightarrow> 48 \<le> (of_char c :: int) \<and> (of_char c :: int) \<le> 57"

definition isupper :: "char \<Rightarrow> bool" where
  "isupper c \<longleftrightarrow> 65 \<le> (of_char c :: int) \<and> (of_char c :: int) \<le> 90"

definition islower :: "char \<Rightarrow> bool" where
  "islower c \<longleftrightarrow> 97 \<le> (of_char c :: int) \<and> (of_char c :: int) \<le> 122"

definition tolower :: "char \<Rightarrow> char" where
  "tolower c = (if isupper c then char_of ((of_char c :: int) + 32) else c)"

definition isxdigit :: "char \<Rightarrow> bool" where
  "isxdigit c \<longleftrightarrow> isdigit c \<or> (97 \<le> (of_char (tolower c) :: int) \<and> (of_char (tolower c) :: int) \<le> 102)"

text \<open>The characters allowed between the parentheses of \<open>NAN(...)\<close>: digits, letters, underscore.\<close>

definition isnchar :: "char \<Rightarrow> bool" where
  "isnchar c \<longleftrightarrow> isdigit c \<or> isupper c \<or> islower c \<or> c = CHR ''_''"

definition digit_value :: "char \<Rightarrow> int" where
  "digit_value c =
     (if isdigit c then of_char c - 48 else of_char (tolower c) - 87)"

definition digits_value :: "int \<Rightarrow> string \<Rightarrow> int" where
  "digits_value b ds = foldl (\<lambda>a c. a * b + digit_value c) 0 ds"

text \<open>An optional sign: whether it is \<open>-\<close>, and the characters after it.\<close>

fun scan_sign :: "string \<Rightarrow> bool \<times> string" where
  "scan_sign [] = (False, [])"
| "scan_sign (c # cs) =
     (if c = CHR ''-'' then (True, cs)
      else if c = CHR ''+'' then (False, cs)
      else (False, c # cs))"

text \<open>
  A nonempty sequence of digits optionally containing the radix character \<open>.\<close>:
  the digits before it, the digits after it, and the characters left.
\<close>

definition scan_mantissa :: "(char \<Rightarrow> bool) \<Rightarrow> string \<Rightarrow> (string \<times> string \<times> string) option" where
  "scan_mantissa isd cs =
     (let ip = takeWhile isd cs; r1 = dropWhile isd cs;
          fp = (case r1 of [] \<Rightarrow> [] | c # r \<Rightarrow> if c = CHR ''.'' then takeWhile isd r else []);
          r2 = (case r1 of [] \<Rightarrow> [] | c # r \<Rightarrow> if c = CHR ''.'' then dropWhile isd r else r1)
      in if ip = [] \<and> fp = [] then None else Some (ip, fp, r2))"

text \<open>
  An optional exponent part: the marker (\<open>e\<close> or \<open>p\<close>, either case), an optional sign and
  a nonempty sequence of decimal digits.  Without the digits nothing is consumed.
\<close>

definition scan_exponent :: "char \<Rightarrow> string \<Rightarrow> int \<times> string" where
  "scan_exponent mark cs =
     (case cs of
        [] \<Rightarrow> (0, cs)
      | c # r \<Rightarrow>
          if tolower c \<noteq> mark then (0, cs)
          else let sr = scan_sign r; ds = takeWhile isdigit (snd sr)
               in if ds = [] then (0, cs)
                  else ((if fst sr then - digits_value 10 ds else digits_value 10 ds),
                        dropWhile isdigit (snd sr)))"

datatype literal = Lit_finite rat | Lit_inf | Lit_nan

definition scan_decimal :: "string \<Rightarrow> (literal \<times> string) option" where
  "scan_decimal cs =
     (case scan_mantissa isdigit cs of
        None \<Rightarrow> None
      | Some (ip, fp, r) \<Rightarrow>
          let er = scan_exponent (CHR ''e'') r
          in Some (Lit_finite (of_int (digits_value 10 (ip @ fp)) * pow10 (fst er - int (length fp))),
                   snd er))"

definition scan_hex :: "string \<Rightarrow> (literal \<times> string) option" where
  "scan_hex cs =
     (case cs of
        z # x # r0 \<Rightarrow>
          if z = CHR ''0'' \<and> tolower x = CHR ''x'' then
            (case scan_mantissa isxdigit r0 of
               None \<Rightarrow> None
             | Some (ip, fp, r) \<Rightarrow>
                 let er = scan_exponent (CHR ''p'') r
                 in Some (Lit_finite (of_int (digits_value 16 (ip @ fp)) * pow2 (fst er - 4 * int (length fp))),
                          snd er))
          else None
      | _ \<Rightarrow> None)"

definition scan_inf :: "string \<Rightarrow> (literal \<times> string) option" where
  "scan_inf cs =
     (if map tolower (take 8 cs) = ''infinity'' then Some (Lit_inf, drop 8 cs)
      else if map tolower (take 3 cs) = ''inf'' then Some (Lit_inf, drop 3 cs)
      else None)"

definition scan_nan :: "string \<Rightarrow> (literal \<times> string) option" where
  "scan_nan cs =
     (if map tolower (take 3 cs) = ''nan'' then
        (case drop 3 cs of
           c # r \<Rightarrow>
             (if c = CHR ''('' then
                (case dropWhile isnchar r of
                   d # r' \<Rightarrow> if d = CHR '')'' then Some (Lit_nan, r') else Some (Lit_nan, c # r)
                 | [] \<Rightarrow> Some (Lit_nan, c # r))
              else Some (Lit_nan, c # r))
         | [] \<Rightarrow> Some (Lit_nan, []))
      else None)"

text \<open>
  The subject sequence after white space and sign: a hexadecimal constant if there is
  one, else a decimal constant (so \<open>0x\<close> without a hexadecimal digit is the decimal
  \<open>0\<close>), else \<open>INF\<close>/\<open>INFINITY\<close>, else \<open>NAN\<close>.
\<close>

definition scan_literal :: "string \<Rightarrow> (literal \<times> string) option" where
  "scan_literal cs =
     (case scan_hex cs of
        Some l \<Rightarrow> Some l
      | None \<Rightarrow>
          (case scan_decimal cs of
             Some l \<Rightarrow> Some l
           | None \<Rightarrow> (case scan_inf cs of Some l \<Rightarrow> Some l | None \<Rightarrow> scan_nan cs)))"

text \<open>
  The value of a literal as a \<open>float\<close>, and whether \<open>errno\<close> is set to \<open>ERANGE\<close>.
  Overflow: the rounded magnitude is beyond the largest finite binary32 value; the result
  is \<open>HUGE_VALF\<close> with the sign, and \<open>ERANGE\<close> is set.  Underflow: whether
  \<open>ERANGE\<close> is set is implementation-defined; the model follows glibc, which sets it
  when the exact value is below the smallest normal number and is not representable.
\<close>

definition to_float :: "bool \<Rightarrow> rat \<Rightarrow> float \<times> bool" where
  "to_float neg q =
     (let r = round_f32 q
      in if 2 ^ 128 \<le> r then (Infinity neg, True)
         else (Finite (if neg then - r else r), q < pow2 (- 126) \<and> r \<noteq> q))"

text \<open>
  \<open>strtof\<close>: \<open>None\<close> when no conversion is performed (the end pointer is the start
  of the string); otherwise the value, the \<open>ERANGE\<close> flag and the characters after
  the subject sequence.
\<close>

definition strtof :: "string \<Rightarrow> (float \<times> bool \<times> string) option" where
  "strtof str =
     (let sr = scan_sign (dropWhile isspace str)
      in case scan_literal (snd sr) of
           None \<Rightarrow> None
         | Some (Lit_finite q, rest) \<Rightarrow>
             (case to_float (fst sr) q of (v, erange) \<Rightarrow> Some (v, erange, rest))
         | Some (Lit_inf, rest) \<Rightarrow> Some (Infinity (fst sr), False, rest)
         | Some (Lit_nan, rest) \<Rightarrow> Some (NaN, False, rest))"

subsection \<open>\<open>std::stof\<close> (C++11 [string.conversions])\<close>

text \<open>
  \<open>std::stof(str)\<close> calls \<open>strtof(str.c_str(), &end)\<close>, throws
  \<open>std::invalid_argument\<close> if no conversion could be performed, throws
  \<open>std::out_of_range\<close> if \<open>errno\<close> is \<open>ERANGE\<close>, and returns the value otherwise.
  The characters after the subject sequence are not looked at.
\<close>

datatype exn = Invalid_argument | Out_of_range

definition stof :: "string \<Rightarrow> exn + float" where
  "stof str =
     (case strtof str of
        None \<Rightarrow> Inl Invalid_argument
      | Some (v, erange, rest) \<Rightarrow> if erange then Inl Out_of_range else Inr v)"

subsection \<open>\<open>std::istringstream\<close> and \<open>std::getline\<close>\<close>

text \<open>
  A string stream that is only read with \<open>getline\<close> is the sequence of its unread
  characters.  \<open>getline\<close> on a stream with no unread character extracts nothing and sets
  \<open>failbit\<close>, which ends a \<open>while (std::getline(...))\<close> loop: \<open>None\<close>.  Otherwise it
  returns the characters before the first delimiter and leaves the stream after that
  delimiter; when there is no delimiter it returns all of them and sets \<open>eofbit\<close>, after
  which the next call fails, as it does here on the empty rest.
\<close>

type_synonym istringstream = string

definition getline :: "istringstream \<Rightarrow> char \<Rightarrow> (string \<times> istringstream) option" where
  "getline is delim =
     (if is = [] then None
      else Some (takeWhile (\<lambda>c. c \<noteq> delim) is, drop 1 (dropWhile (\<lambda>c. c \<noteq> delim) is)))"

lemma getline_shorter: "getline is delim = Some (l, rest) \<Longrightarrow> length rest < length is"
proof -
  assume g: "getline is delim = Some (l, rest)"
  then have ne: "0 < length is"
    and r: "length rest = length (dropWhile (\<lambda>c. c \<noteq> delim) is) - 1"
    by (auto simp: getline_def split: if_splits)
  have "length (dropWhile (\<lambda>c. c \<noteq> delim) is) \<le> length is"
    by (rule length_dropWhile_le)
  with ne r show ?thesis by arith
qed

subsection \<open>The class \<open>IpoptMPC\<close>: its data members\<close>

text \<open>
  The members \<open>x0_\<close>, \<open>map_sz_\<close>, \<open>waypoints_\<close>, \<open>cl_x_\<close>, \<open>cl_y_\<close> and \<open>cl_phi_\<close>
  (a name cannot end in an underscore here, so it is dropped).  The header declares the
  last four twice, with the same types; each is one member here.
\<close>

record IpoptMPC =
  x0 :: "double list"
  map_sz :: int
  waypoints :: "double list list"
  cl_x :: "double list"
  cl_y :: "double list"
  cl_phi :: "double list"

subsection \<open>\<open>parseRoadMapLine\<close> and \<open>readRoadmapFromCSV\<close>\<close>

text \<open>
  The loop of \<open>parseRoadMapLine\<close>:
  \<^verbatim>\<open>while (std::getline(line_stream, number, ',')) wp.push_back(std::stof(number));\<close>
  An exception of \<open>stof\<close> leaves the loop and the function.
\<close>

function parseRoadMapLine_loop :: "istringstream \<Rightarrow> double list \<Rightarrow> exn + double list" where
  "parseRoadMapLine_loop line_stream wp =
     (case getline line_stream (CHR '','') of
        None \<Rightarrow> Inr wp
      | Some (number, rest) \<Rightarrow>
          (case stof number of
             Inl e \<Rightarrow> Inl e
           | Inr v \<Rightarrow> parseRoadMapLine_loop rest (wp @ [v])))"
  by pat_completeness auto
termination
  by (relation "measure (\<lambda>(s, wp). length s)") (auto dest: getline_shorter)

text \<open>
  A member function returns the exception it throws, if any, and the object as it is
  then.  \<open>parseRoadMapLine\<close> reaches \<open>waypoints_.push_back(wp)\<close> only when the loop
  has ended without an exception.
\<close>

definition parseRoadMapLine :: "string \<Rightarrow> IpoptMPC \<Rightarrow> exn option \<times> IpoptMPC" where
  "parseRoadMapLine line this =
     (case parseRoadMapLine_loop line [] of
        Inl e \<Rightarrow> (Some e, this)
      | Inr wp \<Rightarrow> (None, this\<lparr>waypoints := waypoints this @ [wp]\<rparr>))"

text \<open>
  The loop of \<open>readRoadmapFromCSV\<close>:
  \<^verbatim>\<open>while (std::getline(rm_stream, line)) parseRoadMapLine(line);\<close>
  No exception is caught, so the first one ends the ingestion; the waypoints of the
  lines before it stay in the object.
\<close>

function readRoadmapFromCSV_loop :: "istringstream \<Rightarrow> IpoptMPC \<Rightarrow> exn option \<times> IpoptMPC" where
  "readRoadmapFromCSV_loop rm_stream this =
     (case getline rm_stream (CHR 0x0A) of
        None \<Rightarrow> (None, this)
      | Some (line, rest) \<Rightarrow>
          (case parseRoadMapLine line this of
             (Some e, this') \<Rightarrow> (Some e, this')
           | (None, this') \<Rightarrow> readRoadmapFromCSV_loop rest this'))"
  by pat_completeness auto
termination
  by (relation "measure (\<lambda>(s, this). length s)") (auto dest: getline_shorter)

text \<open>\<open>std::istringstream rm_stream(roadmap_file_name);\<close> the stream is the argument itself.\<close>

definition readRoadmapFromCSV :: "string \<Rightarrow> IpoptMPC \<Rightarrow> exn option \<times> IpoptMPC" where
  "readRoadmapFromCSV roadmap_file_name this = readRoadmapFromCSV_loop roadmap_file_name this"

subsection \<open>Records and fields, read without the streams\<close>

text \<open>
  The sequence of strings that a \<open>while (std::getline(stream, piece, d))\<close> loop reads from
  a stream over \<open>s\<close>: the pieces of \<open>s\<close> between the delimiters, a last piece after
  the last delimiter only when it is not empty.  The current piece is accumulated in
  \<open>cur\<close>.
\<close>

fun pieces_from :: "char \<Rightarrow> string \<Rightarrow> string \<Rightarrow> string list" where
  "pieces_from d cur [] = (if cur = [] then [] else [cur])"
| "pieces_from d cur (c # cs) =
     (if c = d then cur # pieces_from d [] cs else pieces_from d (cur @ [c]) cs)"

definition pieces :: "char \<Rightarrow> string \<Rightarrow> string list" where
  "pieces d s = pieces_from d [] s"

definition records_of :: "string \<Rightarrow> string list" where
  "records_of text = pieces (CHR 0x0A) text"

definition fields_of :: "string \<Rightarrow> string list" where
  "fields_of line = pieces (CHR '','') line"

text \<open>The fields of a record converted in order, up to the first exception.\<close>

fun convert_fields :: "string list \<Rightarrow> exn + double list" where
  "convert_fields [] = Inr []"
| "convert_fields (f # fs) =
     (case stof f of
        Inl e \<Rightarrow> Inl e
      | Inr v \<Rightarrow> (case convert_fields fs of Inl e \<Rightarrow> Inl e | Inr vs \<Rightarrow> Inr (v # vs)))"

text \<open>
  The exception, if any, and the waypoints of a sequence of records: the records before the
  first one that throws give a waypoint each.
\<close>

fun waypoints_of_records :: "string list \<Rightarrow> exn option \<times> double list list" where
  "waypoints_of_records [] = (None, [])"
| "waypoints_of_records (l # ls) =
     (case convert_fields (fields_of l) of
        Inl e \<Rightarrow> (Some e, [])
      | Inr wp \<Rightarrow> (fst (waypoints_of_records ls), wp # snd (waypoints_of_records ls)))"




text \<open>An object with no waypoint yet.\<close>

definition new_IpoptMPC :: IpoptMPC where
  "new_IpoptMPC = \<lparr>x0 = [], map_sz = 0, waypoints = [], cl_x = [], cl_y = [], cl_phi = []\<rparr>"

section \<open>Properties\<close>

subsection \<open>The loops and the closed forms agree\<close>

declare parseRoadMapLine_loop.simps [simp del]
declare readRoadmapFromCSV_loop.simps [simp del]

lemma pieces_from_step:
  "s \<noteq> [] \<Longrightarrow>
   pieces_from d cur s =
     (cur @ takeWhile (\<lambda>c. c \<noteq> d) s) # pieces_from d [] (drop 1 (dropWhile (\<lambda>c. c \<noteq> d) s))"
proof (induction s arbitrary: cur)
  case Nil
  then show ?case by simp
next
  case (Cons c cs)
  show ?case
  proof (cases "c = d")
    case True
    then show ?thesis by simp
  next
    case False
    show ?thesis
    proof (cases "cs = []")
      case True
      with False show ?thesis by simp
    next
      case ne: False
      from Cons.IH [OF ne, of "cur @ [c]"] False show ?thesis by simp
    qed
  qed
qed

lemma pieces_getline_None: "getline s d = None \<Longrightarrow> pieces d s = []"
  by (simp add: getline_def pieces_def split: if_splits)

lemma pieces_getline_Some: "getline s d = Some (l, rest) \<Longrightarrow> pieces d s = l # pieces d rest"
  using pieces_from_step [of s d "[]"]
  by (auto simp: getline_def pieces_def split: if_splits)

lemma parseRoadMapLine_loop_eq:
  "parseRoadMapLine_loop s wp =
     (case convert_fields (fields_of s) of Inl e \<Rightarrow> Inl e | Inr vs \<Rightarrow> Inr (wp @ vs))"
proof (induction s wp rule: parseRoadMapLine_loop.induct)
  case (1 line_stream wp)
  show ?case
  proof (cases "getline line_stream (CHR '','')")
    case None
    then show ?thesis
      by (subst parseRoadMapLine_loop.simps) (simp add: pieces_getline_None fields_of_def)
  next
    case (Some p)
    obtain number rest where p: "p = (number, rest)" by (cases p)
    note g = Some [unfolded p]
    show ?thesis
    proof (cases "stof number")
      case (Inl e)
      with g show ?thesis
        by (subst parseRoadMapLine_loop.simps) (simp add: pieces_getline_Some fields_of_def)
    next
      case (Inr v)
      with g "1.IH" [OF g refl Inr] show ?thesis
        by (subst parseRoadMapLine_loop.simps)
           (simp add: pieces_getline_Some fields_of_def split: sum.splits)
    qed
  qed
qed

lemma parseRoadMapLine_eq:
  "parseRoadMapLine line this =
     (case convert_fields (fields_of line) of
        Inl e \<Rightarrow> (Some e, this)
      | Inr wp \<Rightarrow> (None, this\<lparr>waypoints := waypoints this @ [wp]\<rparr>))"
  by (simp add: parseRoadMapLine_def parseRoadMapLine_loop_eq split: sum.splits)

lemma readRoadmapFromCSV_loop_eq:
  "readRoadmapFromCSV_loop s this =
     (fst (waypoints_of_records (records_of s)),
      this\<lparr>waypoints := waypoints this @ snd (waypoints_of_records (records_of s))\<rparr>)"
proof (induction s this rule: readRoadmapFromCSV_loop.induct)
  case (1 rm_stream this)
  show ?case
  proof (cases "getline rm_stream (CHR 0x0A)")
    case None
    then show ?thesis
      by (subst readRoadmapFromCSV_loop.simps) (simp add: pieces_getline_None records_of_def)
  next
    case (Some p)
    obtain line rest where p: "p = (line, rest)" by (cases p)
    note g = Some [unfolded p]
    show ?thesis
    proof (cases "convert_fields (fields_of line)")
      case (Inl e)
      with g show ?thesis
        by (subst readRoadmapFromCSV_loop.simps)
           (simp add: pieces_getline_Some records_of_def parseRoadMapLine_eq)
    next
      case (Inr wp)
      then have pl: "parseRoadMapLine line this = (None, this\<lparr>waypoints := waypoints this @ [wp]\<rparr>)"
        by (simp add: parseRoadMapLine_eq)
      from "1.IH" [OF g refl pl [symmetric] refl] g Inr pl show ?thesis
        by (subst readRoadmapFromCSV_loop.simps) (simp add: pieces_getline_Some records_of_def)
    qed
  qed
qed

subsection \<open>Rounding to binary32\<close>





declare ilog2.simps [simp del]
























subsection \<open>Facts about the closed forms\<close>





lemma convert_fields_length: "convert_fields fs = Inr vs \<Longrightarrow> length vs = length fs"
  by (induction fs arbitrary: vs) (auto split: sum.splits)




lemma length_pieces_from:
  "length (pieces_from d cur s) =
     count_list s d + (if (s = [] \<and> cur = []) \<or> (s \<noteq> [] \<and> last s = d) then 0 else 1)"
  by (induction s arbitrary: cur) auto

lemma length_fields_of:
  "length (fields_of line) =
     count_list line (CHR '','') + (if line = [] \<or> last line = CHR '','' then 0 else 1)"
  using length_pieces_from [of "CHR '',''" "[]" line]
  by (auto simp: fields_of_def pieces_def)

section \<open>The claims about roadmap ingestion\<close>

text \<open>
  The claims C4 to C8 are about \<open>get_nlp_info\<close>, \<open>get_bounds_info\<close>, \<open>eval_g\<close>,
  \<open>eval_jac_g\<close>, \<open>eval_h\<close>, \<open>Solve\<close> and the computation of \<open>cl_x_\<close>, \<open>cl_y_\<close>
  and \<open>cl_phi_\<close>.  The header declares these functions and members and defines none of
  them, so nothing is stated about them here.
\<close>

subsection \<open>C1: a record with a field that is not numeric\<close>




subsection \<open>C2: one waypoint per record, one value per field\<close>




subsection \<open>C3: the number of fields of a stored waypoint\<close>

text \<open>
  C3, as stated, fails: the record \<open>5\<close> is accepted and its waypoint has one field, and
  the empty record is accepted and its waypoint has none.
\<close>

theorem C3_counterexample_short_waypoints:
  "parseRoadMapLine ''5'' new_IpoptMPC = (None, new_IpoptMPC\<lparr>waypoints := [[Finite 5]]\<rparr>) \<and>
   length [Finite 5] < (2 :: nat) \<and>
   parseRoadMapLine [] new_IpoptMPC = (None, new_IpoptMPC\<lparr>waypoints := [[]]\<rparr>)"
  by code_simp

text \<open>
  C3, amended: every record that \<open>parseRoadMapLine\<close> accepts appends exactly one
  waypoint, with as many values as the record has fields: the number of its commas, and
  one more unless the record is empty or ends with a comma.
\<close>

theorem C3_waypoint_length_is_field_count:
  assumes accepted: "parseRoadMapLine line this = (None, this')"
  shows "\<exists>wp. waypoints this' = waypoints this @ [wp] \<and>
    length wp =
      count_list line (CHR '','') + (if line = [] \<or> last line = CHR '','' then 0 else 1)"
proof (cases "convert_fields (fields_of line)")
  case (Inl e)
  with accepted show ?thesis by (simp add: parseRoadMapLine_eq)
next
  case (Inr wp)
  with accepted have "waypoints this' = waypoints this @ [wp]"
    by (auto simp: parseRoadMapLine_eq)
  moreover from Inr have "length wp = length (fields_of line)"
    by (rule convert_fields_length)
  ultimately show ?thesis by (auto simp: length_fields_of)
qed

text \<open>C3, amended, at the record \<open>1.5,2,3\<close>: two commas, three values.\<close>

theorem C3_witness_three_fields:
  "\<exists>wp. waypoints (snd (parseRoadMapLine ''1.5,2,3'' new_IpoptMPC)) = waypoints new_IpoptMPC @ [wp] \<and>
     length wp = 3"
proof -
  have accepted: "parseRoadMapLine ''1.5,2,3'' new_IpoptMPC =
      (None, snd (parseRoadMapLine ''1.5,2,3'' new_IpoptMPC))"
    by code_simp
  from C3_waypoint_length_is_field_count [OF accepted] show ?thesis
    by (simp add: numeral_3_eq_3)
qed

subsection \<open>C9: the argument is the roadmap text\<close>

text \<open>
  C9: \<open>readRoadmapFromCSV\<close> reads the characters of its argument as the roadmap: the
  exception it throws and the waypoints it appends are those of the records of the
  argument string, whatever the object holds, and nothing else of the object changes.
\<close>

theorem C9_argument_is_the_roadmap_text:
  "readRoadmapFromCSV roadmap_file_name this =
     (fst (waypoints_of_records (records_of roadmap_file_name)),
      this\<lparr>waypoints :=
        waypoints this @ snd (waypoints_of_records (records_of roadmap_file_name))\<rparr>)"
proof -
  have "readRoadmapFromCSV roadmap_file_name this =
      readRoadmapFromCSV_loop roadmap_file_name this"
    by (simp only: readRoadmapFromCSV_def)
  also have "\<dots> =
      (fst (waypoints_of_records (records_of roadmap_file_name)),
       this\<lparr>waypoints :=
         waypoints this @ snd (waypoints_of_records (records_of roadmap_file_name))\<rparr>)"
    by (rule readRoadmapFromCSV_loop_eq)
  finally show ?thesis .
qed

text \<open>
  C9 at a file name: the name itself is parsed as a record, and its first field
  \<open>roadmap.csv\<close> is not a number.
\<close>

theorem C9_witness_file_name_is_parsed:
  "readRoadmapFromCSV ''roadmap.csv'' new_IpoptMPC = (Some Invalid_argument, new_IpoptMPC)"
proof -
  have "waypoints_of_records (records_of ''roadmap.csv'') = (Some Invalid_argument, [])"
    by code_simp
  with C9_argument_is_the_roadmap_text [of "''roadmap.csv''" new_IpoptMPC] show ?thesis
    by (simp add: new_IpoptMPC_def)
qed

subsection \<open>C10: stored coordinates are single-precision values\<close>



end
